theory Spec2Isabelle
  imports Main "HOL-Library.Word"
begin

section \<open>JavaScript values, objects and the heap\<close>

text \<open>
  \<^verbatim>\<open>channel.js\<close> is dynamically typed: both constructors receive an options object whose
  properties may hold any JavaScript value. The checks of the source distinguish
  \<^verbatim>\<open>undefined\<close>, \<^verbatim>\<open>null\<close>, arrays and everything else, read the \<^verbatim>\<open>length\<close> property and
  iterate a value with the spread syntax \<^verbatim>\<open>[...x]\<close>. The model keeps exactly that much of
  the language.

  Numbers are never inspected by the module, so their representation is the type
  parameter \<open>'n\<close>. A string is its sequence of UTF-16 code units, which is what
  \<^verbatim>\<open>length\<close> counts. A symbol is known by an identifier. Arrays and all other objects
  (functions among them) live on a heap and are referred to by address, so that a copy
  can be told from an alias.

  Both constructors destructure their argument, so they are called with an options
  object; what they read of it are its properties.
\<close>

type_synonym addr = nat

type_synonym code_unit = "16 word"

datatype 'n js_value =
    JUndefined
  | JNull
  | JBoolean bool
  | JNumber 'n
  | JBigInt int
  | JString "code_unit list"
  | JSymbol nat
  | JObject addr

text \<open>
  A heap cell is an array or any other object.

  Of an array the model keeps its elements (a hole reads as \<^verbatim>\<open>undefined\<close> and is stored
  as such) and its iterator. The spread syntax does not read the elements, it calls
  \<^verbatim>\<open>x[Symbol.iterator]()\<close>: an ordinary array inherits the iterator of \<^verbatim>\<open>Array.prototype\<close>,
  which yields the elements (\<open>None\<close>), while an array with a \<^verbatim>\<open>Symbol.iterator\<close> of its own,
  or of a subclass, yields whatever that iterator yields (\<open>Some ys\<close>).

  Of any other object the model keeps what the module can observe: the value of its
  \<^verbatim>\<open>length\<close> property (\<open>Some n\<close> when it is the number \<open>n\<close>, \<open>None\<close> when it is missing or
  anything else) and the values its iterator yields (\<open>None\<close> when the object is not
  iterable). Typed arrays, \<^verbatim>\<open>arguments\<close> objects, sets, functions and plain objects are all
  of this second kind.

  Getters and iterators that throw, iterators that never end, an array whose
  \<^verbatim>\<open>Symbol.iterator\<close> is not a function, and proxies are outside the model.
\<close>

datatype 'n heap_obj =
    ArrayObj "'n js_value list" "'n js_value list option"
  | OtherObj "nat option" "'n js_value list option"

type_synonym 'n heap = "'n heap_obj list"

text \<open>
  The object at an address. An address beyond the heap denotes no object of the
  caller; it is read as an object without \<^verbatim>\<open>length\<close> and without iterator.
\<close>

definition lookup :: "'n heap \<Rightarrow> addr \<Rightarrow> 'n heap_obj" where
  "lookup h a = (if a < length h then h ! a else OtherObj None None)"

text \<open>\<^verbatim>\<open>[x1, ..., xn]\<close>: a fresh, ordinary array is allocated at the end of the heap.\<close>

definition alloc :: "'n heap \<Rightarrow> 'n js_value list \<Rightarrow> 'n heap \<times> 'n js_value" where
  "alloc h xs = (h @ [ArrayObj xs None], JObject (length h))"

text \<open>
  Any in-place mutation of the object at address \<open>a\<close> (\<^verbatim>\<open>arr[i] = v\<close>, \<^verbatim>\<open>arr.push(v)\<close>,
  \<^verbatim>\<open>arr.length = 0\<close>, ...) replaces the cell at \<open>a\<close> and touches no other cell.
\<close>

definition mutate :: "'n heap \<Rightarrow> addr \<Rightarrow> 'n heap_obj \<Rightarrow> 'n heap" where
  "mutate h a c = h[a := c]"

text \<open>The elements of an array value, \<open>None\<close> for a value that is not an array.\<close>

definition elements :: "'n heap \<Rightarrow> 'n js_value \<Rightarrow> 'n js_value list option" where
  "elements h v =
     (case v of
        JObject a \<Rightarrow> (case lookup h a of ArrayObj xs own \<Rightarrow> Some xs | OtherObj l it \<Rightarrow> None)
      | _ \<Rightarrow> None)"

text \<open>
  An object's own properties: a finite map from property names to values. Reading a
  property that is absent gives \<^verbatim>\<open>undefined\<close>, as destructuring
  \<^verbatim>\<open>{color, opacity, ...}\<close> of the options object does.
\<close>

type_synonym 'n js_props = "string \<rightharpoonup> 'n js_value"

definition property :: "'n js_props \<Rightarrow> string \<Rightarrow> 'n js_value" where
  "property obj k = (case obj k of None \<Rightarrow> JUndefined | Some v \<Rightarrow> v)"

text \<open>A string literal of ASCII characters as UTF-16 code units.\<close>

definition ascii :: "string \<Rightarrow> code_unit list" where
  "ascii s = map of_char s"

subsection \<open>Errors\<close>

text \<open>
  The source throws \<^verbatim>\<open>new Error(message)\<close>; the language itself throws a \<^verbatim>\<open>TypeError\<close>
  when a property of \<^verbatim>\<open>undefined\<close> or \<^verbatim>\<open>null\<close> is read and when a value that is not
  iterable is spread.
\<close>

datatype js_error = Error string | TypeError

text \<open>
  Modelled from the spec: the source has no error classes, its errors differ only in
  their message. The specification names two kinds: a \<open>MissingFieldError\<close> (a required
  field was not supplied) and a \<open>ShapeError\<close> (a supplied field has the wrong container
  type or the wrong element count). The messages of the source are sorted into the two
  kinds by what they report.
\<close>

definition MissingFieldError :: "js_error \<Rightarrow> bool" where
  "MissingFieldError e =
     (e \<in> set [Error ''Color is required.'',
               Error ''Threshold values are required.'',
               Error ''Limit values are required.'',
               Error ''Optical Path Identifier is required.'',
               Error ''Study Instance UID is required.'',
               Error ''Series Instance UID is required.'',
               Error ''SOP Instance UIDs are required.''])"

definition ShapeError :: "js_error \<Rightarrow> bool" where
  "ShapeError e =
     (e \<in> set [Error ''Color must be provided as an array.'',
               Error ''An RGB color triplet must be provided.'',
               Error ''Threshold values must be provided as an array.'',
               Error ''Two threshold values must be provided.'',
               Error ''Limit values must be provided as an array.'',
               Error ''Two limit values must be provided.''])"

subsection \<open>The operations of the language the constructors use\<close>

text \<open>\<^verbatim>\<open>x == null\<close>: true for \<^verbatim>\<open>undefined\<close> and \<^verbatim>\<open>null\<close> only.\<close>

definition loosely_null :: "'n js_value \<Rightarrow> bool" where
  "loosely_null v = (case v of JUndefined \<Rightarrow> True | JNull \<Rightarrow> True | _ \<Rightarrow> False)"

text \<open>\<^verbatim>\<open>Array.isArray(x)\<close>.\<close>

definition isArray :: "'n heap \<Rightarrow> 'n js_value \<Rightarrow> bool" where
  "isArray h v =
     (case v of
        JObject a \<Rightarrow> (case lookup h a of ArrayObj xs own \<Rightarrow> True | OtherObj l it \<Rightarrow> False)
      | _ \<Rightarrow> False)"

text \<open>
  \<^verbatim>\<open>x.length\<close>: \<open>Some n\<close> when the property is the number \<open>n\<close>, \<open>None\<close> when it is
  \<^verbatim>\<open>undefined\<close> or any other value, and a \<^verbatim>\<open>TypeError\<close> on \<^verbatim>\<open>undefined\<close> and \<^verbatim>\<open>null\<close>.
  Booleans, numbers and symbols have no such property.
\<close>

definition get_length :: "'n heap \<Rightarrow> 'n js_value \<Rightarrow> js_error + nat option" where
  "get_length h v =
     (case v of
        JUndefined \<Rightarrow> Inl TypeError
      | JNull \<Rightarrow> Inl TypeError
      | JBoolean b \<Rightarrow> Inr None
      | JNumber n \<Rightarrow> Inr None
      | JBigInt i \<Rightarrow> Inr None
      | JString s \<Rightarrow> Inr (Some (length s))
      | JSymbol y \<Rightarrow> Inr None
      | JObject a \<Rightarrow>
          (case lookup h a of
             ArrayObj xs own \<Rightarrow> Inr (Some (length xs))
           | OtherObj l it \<Rightarrow> Inr l))"

text \<open>
  Iterating a string yields its code points, not its code units: a high surrogate
  followed by a low surrogate is one element.
\<close>

definition high_surrogate :: "code_unit \<Rightarrow> bool" where
  "high_surrogate u = (0xD800 \<le> u \<and> u \<le> 0xDBFF)"

definition low_surrogate :: "code_unit \<Rightarrow> bool" where
  "low_surrogate u = (0xDC00 \<le> u \<and> u \<le> 0xDFFF)"

fun code_points :: "code_unit list \<Rightarrow> code_unit list list" where
  "code_points [] = []"
| "code_points [u] = [[u]]"
| "code_points (u # v # us) =
     (if high_surrogate u \<and> low_surrogate v then [u, v] # code_points us
      else [u] # code_points (v # us))"

text \<open>
  \<^verbatim>\<open>[...x]\<close>, the values only (the caller allocates the new array): what the iterator
  of an array yields (its elements, unless it has an iterator of its own), the code
  points of a string, what the iterator of another object yields, and a \<^verbatim>\<open>TypeError\<close>
  for every value that is not iterable.
\<close>

definition spread :: "'n heap \<Rightarrow> 'n js_value \<Rightarrow> js_error + 'n js_value list" where
  "spread h v =
     (case v of
        JString s \<Rightarrow> Inr (map JString (code_points s))
      | JObject a \<Rightarrow>
          (case lookup h a of
             ArrayObj xs own \<Rightarrow> Inr (case own of None \<Rightarrow> xs | Some ys \<Rightarrow> ys)
           | OtherObj l it \<Rightarrow> (case it of None \<Rightarrow> Inl TypeError | Some xs \<Rightarrow> Inr xs))
      | _ \<Rightarrow> Inl TypeError)"

section \<open>BlendingInformation\<close>

text \<open>
  The constructor, statement by statement. It takes the heap and the options object
  and returns the heap (the copies made so far stay allocated when a later check
  throws) with either the error thrown or the properties of the new instance.
\<close>

definition BlendingInformation ::
  "'n heap \<Rightarrow> 'n js_props \<Rightarrow> 'n heap \<times> (js_error + 'n js_props)" where
  "BlendingInformation h options =
     (let opticalPathIdentifier = property options ''opticalPathIdentifier'';
          color = property options ''color'';
          opacity = property options ''opacity'';
          thresholdValues = property options ''thresholdValues'';
          limitValues = property options ''limitValues'';
          visible = property options ''visible'';
          this0 = Map.empty(''opticalPathIdentifier'' \<mapsto> opticalPathIdentifier)
      in
      if loosely_null color then (h, Inl (Error ''Color is required.''))
      else if \<not> isArray h color then (h, Inl (Error ''Color must be provided as an array.''))
      else case get_length h color of Inl e \<Rightarrow> (h, Inl e) | Inr n \<Rightarrow>
      if n \<noteq> Some 3 then (h, Inl (Error ''An RGB color triplet must be provided.''))
      else case spread h color of Inl e \<Rightarrow> (h, Inl e) | Inr cs \<Rightarrow>
      let (h1, c) = alloc h cs;
          this1 = this0(''color'' \<mapsto> c);
          this2 = this1(''opacity'' \<mapsto> opacity)
      in
      if loosely_null thresholdValues then (h1, Inl (Error ''Threshold values are required.''))
      else if \<not> isArray h1 thresholdValues
        then (h1, Inl (Error ''Threshold values must be provided as an array.''))
      else case get_length h1 thresholdValues of Inl e \<Rightarrow> (h1, Inl e) | Inr n \<Rightarrow>
      if n \<noteq> Some 2 then (h1, Inl (Error ''Two threshold values must be provided.''))
      else case spread h1 thresholdValues of Inl e \<Rightarrow> (h1, Inl e) | Inr ts \<Rightarrow>
      let (h2, t) = alloc h1 ts;
          this3 = this2(''thresholdValues'' \<mapsto> t)
      in
      if loosely_null limitValues then (h2, Inl (Error ''Limit values are required.''))
      else if \<not> isArray h2 thresholdValues
        then (h2, Inl (Error ''Limit values must be provided as an array.''))
      else case get_length h2 limitValues of Inl e \<Rightarrow> (h2, Inl e) | Inr n \<Rightarrow>
      if n \<noteq> Some 2 then (h2, Inl (Error ''Two limit values must be provided.''))
      else case spread h2 limitValues of Inl e \<Rightarrow> (h2, Inl e) | Inr ls \<Rightarrow>
      let (h3, l) = alloc h2 ls;
          this4 = this3(''limitValues'' \<mapsto> l);
          this5 = this4(''visible'' \<mapsto> visible)
      in (h3, Inr this5))"

section \<open>Channel\<close>

text \<open>
  A channel keeps its state in one object stored under the private symbol
  \<^verbatim>\<open>_channelAttrs\<close>. The constructor does not read or copy any array, so it needs no
  heap.
\<close>

datatype 'n channel = ChannelObj (channelAttrs: "'n js_props")

definition Channel :: "'n js_props \<Rightarrow> js_error + 'n channel" where
  "Channel options =
     (let opticalPathIdentifier = property options ''opticalPathIdentifier'';
          studyInstanceUID = property options ''studyInstanceUID'';
          seriesInstanceUID = property options ''seriesInstanceUID'';
          sopInstanceUIDs = property options ''sopInstanceUIDs'';
          attrs0 = Map.empty
      in
      if opticalPathIdentifier = JUndefined
        then Inl (Error ''Optical Path Identifier is required.'')
      else let attrs1 = attrs0(''opticalPathIdentifier'' \<mapsto> opticalPathIdentifier) in
      if studyInstanceUID = JUndefined then Inl (Error ''Study Instance UID is required.'')
      else let attrs2 = attrs1(''studyInstanceUID'' \<mapsto> studyInstanceUID) in
      if seriesInstanceUID = JUndefined then Inl (Error ''Series Instance UID is required.'')
      else let attrs3 = attrs2(''seriesInstanceUID'' \<mapsto> seriesInstanceUID) in
      if sopInstanceUIDs = JUndefined then Inl (Error ''SOP Instance UIDs are required.'')
      else let attrs4 = attrs3(''sopInstanceUIDs'' \<mapsto> sopInstanceUIDs) in
      Inr (ChannelObj attrs4))"

text \<open>The four getters.\<close>

definition opticalPathIdentifier :: "'n channel \<Rightarrow> 'n js_value" where
  "opticalPathIdentifier this = property (channelAttrs this) ''opticalPathIdentifier''"

definition studyInstanceUID :: "'n channel \<Rightarrow> 'n js_value" where
  "studyInstanceUID this = property (channelAttrs this) ''studyInstanceUID''"

definition seriesInstanceUID :: "'n channel \<Rightarrow> 'n js_value" where
  "seriesInstanceUID this = property (channelAttrs this) ''seriesInstanceUID''"

definition sopInstanceUIDs :: "'n channel \<Rightarrow> 'n js_value" where
  "sopInstanceUIDs this = property (channelAttrs this) ''sopInstanceUIDs''"

section \<open>Inputs, outcomes and the validation order of the specification\<close>

text \<open>
  A value of the caller refers to an object that exists: its address lies within the
  heap. The constructor inspects three option values, so these are the ones the
  condition is about.
\<close>

definition wf_value :: "'n heap \<Rightarrow> 'n js_value \<Rightarrow> bool" where
  "wf_value h v = (case v of JObject a \<Rightarrow> a < length h | _ \<Rightarrow> True)"

definition wf_options :: "'n heap \<Rightarrow> 'n js_props \<Rightarrow> bool" where
  "wf_options h options =
     (wf_value h (property options ''color'') \<and>
      wf_value h (property options ''thresholdValues'') \<and>
      wf_value h (property options ''limitValues''))"

text \<open>The error a construction throws, \<open>None\<close> when it returns an instance.\<close>

definition thrown :: "'h \<times> (js_error + 'a) \<Rightarrow> js_error option" where
  "thrown r = (case snd r of Inl e \<Rightarrow> Some e | Inr x \<Rightarrow> None)"

text \<open>An array of exactly \<open>k\<close> elements.\<close>

definition valid_array :: "'n heap \<Rightarrow> 'n js_value \<Rightarrow> nat \<Rightarrow> bool" where
  "valid_array h v k = (isArray h v \<and> get_length h v = Inr (Some k))"

text \<open>
  What spreading a value yields, for the values that can be spread (arrays always
  can).
\<close>

definition yields :: "'n heap \<Rightarrow> 'n js_value \<Rightarrow> 'n js_value list" where
  "yields h v = (case spread h v of Inl e \<Rightarrow> [] | Inr xs \<Rightarrow> xs)"

text \<open>One of the four inputs of a channel is absent: it reads as \<^verbatim>\<open>undefined\<close>.\<close>

definition absent_channel_field :: "'n js_props \<Rightarrow> bool" where
  "absent_channel_field options =
     (property options ''opticalPathIdentifier'' = JUndefined \<or>
      property options ''studyInstanceUID'' = JUndefined \<or>
      property options ''seriesInstanceUID'' = JUndefined \<or>
      property options ''sopInstanceUIDs'' = JUndefined)"

subsection \<open>The validation order, in the words of the specification\<close>

text \<open>
  The specification lists nine checks in a fixed order: colour presence, colour is a
  sequence, colour has exactly three elements, threshold values presence, threshold
  values is a sequence, threshold values has exactly two elements, limit values
  presence, the limit values ``is a sequence'' check performed against the threshold
  values, limit values has exactly two elements. Opacity and visibility are in no check.
  \<open>validation_order\<close> is that list, each check with the error it reports, and
  \<open>first_failing_check\<close> is the error of the first check that does not pass. Both are
  written from the specification, to be compared with the constructor.
\<close>

definition present :: "'n js_value \<Rightarrow> bool" where
  "present v = (\<not> loosely_null v)"

definition has_elements :: "'n heap \<Rightarrow> 'n js_value \<Rightarrow> nat \<Rightarrow> bool" where
  "has_elements h v k = (get_length h v = Inr (Some k))"

definition validation_order :: "(('n heap \<Rightarrow> 'n js_props \<Rightarrow> bool) \<times> js_error) list" where
  "validation_order =
     [(\<lambda>h options. present (property options ''color''),
         Error ''Color is required.''),
      (\<lambda>h options. isArray h (property options ''color''),
         Error ''Color must be provided as an array.''),
      (\<lambda>h options. has_elements h (property options ''color'') 3,
         Error ''An RGB color triplet must be provided.''),
      (\<lambda>h options. present (property options ''thresholdValues''),
         Error ''Threshold values are required.''),
      (\<lambda>h options. isArray h (property options ''thresholdValues''),
         Error ''Threshold values must be provided as an array.''),
      (\<lambda>h options. has_elements h (property options ''thresholdValues'') 2,
         Error ''Two threshold values must be provided.''),
      (\<lambda>h options. present (property options ''limitValues''),
         Error ''Limit values are required.''),
      (\<lambda>h options. isArray h (property options ''thresholdValues''),
         Error ''Limit values must be provided as an array.''),
      (\<lambda>h options. has_elements h (property options ''limitValues'') 2,
         Error ''Two limit values must be provided.'')]"

definition first_failing_check :: "'n heap \<Rightarrow> 'n js_props \<Rightarrow> js_error option" where
  "first_failing_check h options =
     map_option snd (find (\<lambda>(passes, e). \<not> passes h options) validation_order)"

subsection \<open>Concrete inputs\<close>

text \<open>
  The scenarios of the specification. Scenario 1 is a complete channel, scenario 2 the
  same without \<^verbatim>\<open>sopInstanceUIDs\<close>, scenario 3 a complete blending information over a heap
  that holds the caller's three arrays \<^verbatim>\<open>[255, 0, 0]\<close>, \<^verbatim>\<open>[0, 1]\<close> and \<^verbatim>\<open>[0, 65535]\<close>,
  all ordinary.
\<close>

definition scenario1_heap :: "int heap" where
  "scenario1_heap = [ArrayObj [JString (ascii ''1.2.3.4.5'')] None]"

definition scenario1 :: "int js_props" where
  "scenario1 =
     [''opticalPathIdentifier'' \<mapsto> JString (ascii ''Cy5''),
      ''studyInstanceUID'' \<mapsto> JString (ascii ''1.2.3''),
      ''seriesInstanceUID'' \<mapsto> JString (ascii ''1.2.3.4''),
      ''sopInstanceUIDs'' \<mapsto> JObject 0]"

definition scenario2 :: "int js_props" where
  "scenario2 =
     [''opticalPathIdentifier'' \<mapsto> JString (ascii ''Cy5''),
      ''studyInstanceUID'' \<mapsto> JString (ascii ''1.2.3''),
      ''seriesInstanceUID'' \<mapsto> JString (ascii ''1.2.3.4'')]"

definition scenario3_heap :: "int heap" where
  "scenario3_heap =
     [ArrayObj [JNumber 255, JNumber 0, JNumber 0] None,
      ArrayObj [JNumber 0, JNumber 1] None,
      ArrayObj [JNumber 0, JNumber 65535] None]"

definition scenario3 :: "int js_props" where
  "scenario3 =
     [''opticalPathIdentifier'' \<mapsto> JString (ascii ''Cy5''),
      ''color'' \<mapsto> JObject 0,
      ''opacity'' \<mapsto> JNumber 1,
      ''thresholdValues'' \<mapsto> JObject 1,
      ''limitValues'' \<mapsto> JObject 2,
      ''visible'' \<mapsto> JBoolean True]"

text \<open>Scenario 3 with the string \<^verbatim>\<open>"ab"\<close> as limit values.\<close>

definition limit_string :: "int js_props" where
  "limit_string = scenario3(''limitValues'' \<mapsto> JString (ascii ''ab''))"

text \<open>
  Scenario 3 with a string of one character outside the basic plane as limit values
  (the code point U+1F600, written with the surrogates D83D and DE00): two code units,
  one code point.
\<close>

definition limit_surrogates :: "int js_props" where
  "limit_surrogates = scenario3(''limitValues'' \<mapsto> JString [0xD83D, 0xDE00])"

text \<open>
  Several invalid fields at once: the colour is a number, the threshold values are
  missing, the limit values are an array of three elements.
\<close>

definition multiple_invalid :: "int js_props" where
  "multiple_invalid =
     [''color'' \<mapsto> JNumber 5,
      ''opacity'' \<mapsto> JString (ascii ''opaque''),
      ''limitValues'' \<mapsto> JObject 0]"

text \<open>
  Scenario 3 without an optical path identifier, with a string as opacity and a number
  as visibility.
\<close>

definition wrong_typed :: "int js_props" where
  "wrong_typed =
     scenario3(''opticalPathIdentifier'' := None,
               ''opacity'' \<mapsto> JString (ascii ''opaque''),
               ''visible'' \<mapsto> JNumber 42)"

text \<open>
  The heap of scenario 3 with another colour: the array \<^verbatim>\<open>[1, 2, 3]\<close> with an iterator of
  its own that yields the single value 7.
\<close>

definition own_iterator_heap :: "int heap" where
  "own_iterator_heap =
     [ArrayObj [JNumber 1, JNumber 2, JNumber 3] (Some [JNumber 7]),
      ArrayObj [JNumber 0, JNumber 1] None,
      ArrayObj [JNumber 0, JNumber 65535] None]"

section \<open>Basic facts\<close>

lemma lookup_append: "a < length h \<Longrightarrow> lookup (h @ ys) a = lookup h a"
  by (simp add: lookup_def nth_append)

lemma isArray_append: "wf_value h v \<Longrightarrow> isArray (h @ ys) v = isArray h v"
  by (cases v) (simp_all add: isArray_def wf_value_def lookup_append)

lemma get_length_append: "wf_value h v \<Longrightarrow> get_length (h @ ys) v = get_length h v"
  by (cases v) (simp_all add: get_length_def wf_value_def lookup_append)

lemma spread_append: "wf_value h v \<Longrightarrow> spread (h @ ys) v = spread h v"
  by (cases v) (simp_all add: spread_def wf_value_def lookup_append)

lemma yields_append: "wf_value h v \<Longrightarrow> yields (h @ ys) v = yields h v"
  by (simp add: yields_def spread_append)

lemma elements_append: "wf_value h v \<Longrightarrow> elements (h @ ys) v = elements h v"
  by (cases v) (simp_all add: elements_def wf_value_def lookup_append)

lemma not_null_get_length: "\<not> loosely_null v \<Longrightarrow> \<exists>n. get_length h v = Inr n"
  by (cases v) (auto simp add: loosely_null_def get_length_def split: heap_obj.splits)

lemma isArray_elements: "isArray h v = (elements h v \<noteq> None)"
  by (cases v) (simp_all add: isArray_def elements_def split: heap_obj.splits)

text \<open>An array can always be spread; an ordinary one yields its elements.\<close>

lemma elements_spread: "elements h v = Some xs \<Longrightarrow> spread h v = Inr (yields h v)"
  by (cases v) (simp_all add: yields_def spread_def elements_def split: heap_obj.splits)

lemma yields_ordinary: "lookup h a = ArrayObj xs None \<Longrightarrow> yields h (JObject a) = xs"
  by (simp add: yields_def spread_def)

lemma elements_get_length:
  "elements h v = Some xs \<Longrightarrow> get_length h v = Inr (Some (length xs))"
  by (cases v) (simp_all add: get_length_def elements_def split: heap_obj.splits)

lemma elements_not_null: "elements h v = Some xs \<Longrightarrow> \<not> loosely_null v"
  by (cases v) (simp_all add: loosely_null_def elements_def)

lemma elements_wf: "elements h v = Some xs \<Longrightarrow> wf_value h v"
  by (cases v) (auto simp add: elements_def wf_value_def lookup_def split: if_splits)

lemma spread_error: "spread h v = Inl e \<Longrightarrow> e = TypeError"
  by (cases v) (simp_all add: spread_def split: heap_obj.splits option.splits)

lemma thrown_simps: "thrown (h, Inl e) = Some e" "thrown (h, Inr x) = None"
  by (simp_all add: thrown_def)

lemmas eval_defs = BlendingInformation_def property_def loosely_null_def
  isArray_def lookup_def get_length_def spread_def alloc_def ascii_def
  high_surrogate_def low_surrogate_def scenario3_def scenario3_heap_def

lemma valid_array_elements:
  "valid_array h v k = (\<exists>xs. elements h v = Some xs \<and> length xs = k)"
proof (cases "elements h v")
  case None
  then show ?thesis by (simp add: valid_array_def isArray_elements)
next
  case (Some xs)
  then show ?thesis
    using elements_get_length [OF Some] by (auto simp add: valid_array_def isArray_elements)
qed

lemma loosely_null_simps:
  "loosely_null JUndefined" "loosely_null JNull"
  "\<not> loosely_null (JBoolean b)" "\<not> loosely_null (JNumber n)"
  "\<not> loosely_null (JBigInt i)" "\<not> loosely_null (JString s)"
  "\<not> loosely_null (JSymbol y)" "\<not> loosely_null (JObject a)"
  by (simp_all add: loosely_null_def)

lemma lookup_mutate_other: "a \<noteq> b \<Longrightarrow> lookup (mutate h a c) b = lookup h b"
  by (simp add: lookup_def mutate_def)

lemma elements_mutate_other:
  "a \<noteq> b \<Longrightarrow> elements (mutate h a c) (JObject b) = elements h (JObject b)"
  by (simp add: elements_def lookup_mutate_other)

lemma elements_fresh:
  "elements (h @ [ArrayObj cs None, ArrayObj ts None, ArrayObj ls None]) (JObject (length h)) =
     Some cs"
  "elements (h @ [ArrayObj cs None, ArrayObj ts None, ArrayObj ls None])
     (JObject (Suc (length h))) = Some ts"
  "elements (h @ [ArrayObj cs None, ArrayObj ts None, ArrayObj ls None])
     (JObject (Suc (Suc (length h)))) = Some ls"
  by (simp_all add: elements_def lookup_def nth_append)

lemmas scenario3_eval = valid_array_def isArray_def get_length_def lookup_def property_def
  scenario3_def scenario3_heap_def

section \<open>The constructors, path by path\<close>

text \<open>
  The constructor of \<open>BlendingInformation\<close> as a chain of its nine checks, with the
  branches that cannot be taken removed: once a value is known to be an array, reading
  its length and spreading it do not throw. The copy of an array holds what its
  iterator yields.
\<close>

lemma BlendingInformation_unfold:
  "BlendingInformation h options =
     (let color = property options ''color'';
          thresholdValues = property options ''thresholdValues'';
          limitValues = property options ''limitValues'';
          h1 = h @ [ArrayObj (yields h color) None];
          h2 = h1 @ [ArrayObj (yields h1 thresholdValues) None]
      in
      if loosely_null color then (h, Inl (Error ''Color is required.''))
      else case elements h color of
        None \<Rightarrow> (h, Inl (Error ''Color must be provided as an array.''))
      | Some xs \<Rightarrow>
      if length xs \<noteq> 3 then (h, Inl (Error ''An RGB color triplet must be provided.''))
      else if loosely_null thresholdValues then (h1, Inl (Error ''Threshold values are required.''))
      else case elements h1 thresholdValues of
        None \<Rightarrow> (h1, Inl (Error ''Threshold values must be provided as an array.''))
      | Some ys \<Rightarrow>
      if length ys \<noteq> 2 then (h1, Inl (Error ''Two threshold values must be provided.''))
      else if loosely_null limitValues then (h2, Inl (Error ''Limit values are required.''))
      else if get_length h2 limitValues \<noteq> Inr (Some 2) then (h2, Inl (Error ''Two limit values must be provided.''))
      else case spread h2 limitValues of
        Inl e \<Rightarrow> (h2, Inl e)
      | Inr ls \<Rightarrow>
         (h2 @ [ArrayObj ls None],
          Inr [''opticalPathIdentifier'' \<mapsto> property options ''opticalPathIdentifier'',
               ''color'' \<mapsto> JObject (length h),
               ''opacity'' \<mapsto> property options ''opacity'',
               ''thresholdValues'' \<mapsto> JObject (Suc (length h)),
               ''limitValues'' \<mapsto> JObject (Suc (Suc (length h))),
               ''visible'' \<mapsto> property options ''visible'']))"
proof -
  let ?c = "property options ''color''"
  let ?t = "property options ''thresholdValues''"
  let ?l = "property options ''limitValues''"
  show ?thesis
  proof (cases "loosely_null ?c")
    case True
    then show ?thesis by (simp add: BlendingInformation_def Let_def)
  next
    case c_present: False
    show ?thesis
    proof (cases "elements h ?c")
      case None
      with c_present show ?thesis
        by (simp add: BlendingInformation_def isArray_elements Let_def)
    next
      case (Some xs)
      note c = c_present Some elements_spread [OF Some] elements_get_length [OF Some]
      let ?h1 = "h @ [ArrayObj (yields h ?c) None]"
      show ?thesis
      proof (cases "length xs = 3")
        case False
        with c show ?thesis
          by (simp add: BlendingInformation_def isArray_elements Let_def)
      next
        case c_three: True
        show ?thesis
        proof (cases "loosely_null ?t")
          case True
          with c c_three show ?thesis
            by (simp add: BlendingInformation_def isArray_elements alloc_def Let_def)
        next
          case t_present: False
          show ?thesis
          proof (cases "elements ?h1 ?t")
            case None
            with c c_three t_present show ?thesis
              by (simp add: BlendingInformation_def isArray_elements alloc_def Let_def)
          next
            case (Some ys)
            note t = t_present Some elements_spread [OF Some] elements_get_length [OF Some]
            let ?h2 = "h @ [ArrayObj (yields h ?c) None, ArrayObj (yields ?h1 ?t) None]"
            have t2: "elements ?h2 ?t = Some ys"
              using elements_append [OF elements_wf [OF Some],
                  of "[ArrayObj (yields ?h1 ?t) None]"] Some
              by simp
            show ?thesis
            proof (cases "length ys = 2")
              case False
              with c c_three t show ?thesis
                by (simp add: BlendingInformation_def isArray_elements alloc_def Let_def)
            next
              case t_two: True
              show ?thesis
              proof (cases "loosely_null ?l")
                case True
                with c c_three t t_two show ?thesis
                  by (simp add: BlendingInformation_def isArray_elements alloc_def Let_def)
              next
                case l_present: False
                then obtain n where n: "get_length ?h2 ?l = Inr n"
                  using not_null_get_length by blast
                show ?thesis
                proof (cases "n = Some 2")
                  case False
                  with c c_three t t_two l_present t2 n show ?thesis
                    by (simp add: BlendingInformation_def isArray_elements alloc_def Let_def)
                next
                  case True
                  with c c_three t t_two l_present t2 n show ?thesis
                    by (simp add: BlendingInformation_def isArray_elements alloc_def Let_def
                        split: sum.splits)
                qed
              qed
            qed
          qed
        qed
      qed
    qed
  qed
qed

text \<open>
  For options that refer to objects of the heap, every check reads the heap of the
  caller.
\<close>

lemma BlendingInformation_unfold_wf:
  assumes "wf_options h options"
  shows "BlendingInformation h options =
     (let color = property options ''color'';
          thresholdValues = property options ''thresholdValues'';
          limitValues = property options ''limitValues'';
          h1 = h @ [ArrayObj (yields h color) None];
          h2 = h1 @ [ArrayObj (yields h thresholdValues) None]
      in
      if loosely_null color then (h, Inl (Error ''Color is required.''))
      else case elements h color of
        None \<Rightarrow> (h, Inl (Error ''Color must be provided as an array.''))
      | Some xs \<Rightarrow>
      if length xs \<noteq> 3 then (h, Inl (Error ''An RGB color triplet must be provided.''))
      else if loosely_null thresholdValues then (h1, Inl (Error ''Threshold values are required.''))
      else case elements h thresholdValues of
        None \<Rightarrow> (h1, Inl (Error ''Threshold values must be provided as an array.''))
      | Some ys \<Rightarrow>
      if length ys \<noteq> 2 then (h1, Inl (Error ''Two threshold values must be provided.''))
      else if loosely_null limitValues then (h2, Inl (Error ''Limit values are required.''))
      else if get_length h limitValues \<noteq> Inr (Some 2) then (h2, Inl (Error ''Two limit values must be provided.''))
      else case spread h limitValues of
        Inl e \<Rightarrow> (h2, Inl e)
      | Inr ls \<Rightarrow>
         (h2 @ [ArrayObj ls None],
          Inr [''opticalPathIdentifier'' \<mapsto> property options ''opticalPathIdentifier'',
               ''color'' \<mapsto> JObject (length h),
               ''opacity'' \<mapsto> property options ''opacity'',
               ''thresholdValues'' \<mapsto> JObject (Suc (length h)),
               ''limitValues'' \<mapsto> JObject (Suc (Suc (length h))),
               ''visible'' \<mapsto> property options ''visible'']))"
proof -
  from assms have wf: "wf_value h (property options ''thresholdValues'')"
    "wf_value h (property options ''limitValues'')"
    by (simp_all add: wf_options_def)
  have app: "elements (h @ zs) (property options ''thresholdValues'') =
      elements h (property options ''thresholdValues'')"
    "yields (h @ zs) (property options ''thresholdValues'') =
      yields h (property options ''thresholdValues'')"
    "get_length (h @ zs) (property options ''limitValues'') =
      get_length h (property options ''limitValues'')"
    "spread (h @ zs) (property options ''limitValues'') =
      spread h (property options ''limitValues'')" for zs
    using wf by (simp_all add: elements_append yields_append get_length_append spread_append)
  show ?thesis
    unfolding BlendingInformation_unfold Let_def append_assoc app ..
qed

lemma Channel_unfold:
  "Channel options =
     (if property options ''opticalPathIdentifier'' = JUndefined
        then Inl (Error ''Optical Path Identifier is required.'')
      else if property options ''studyInstanceUID'' = JUndefined
        then Inl (Error ''Study Instance UID is required.'')
      else if property options ''seriesInstanceUID'' = JUndefined
        then Inl (Error ''Series Instance UID is required.'')
      else if property options ''sopInstanceUIDs'' = JUndefined
        then Inl (Error ''SOP Instance UIDs are required.'')
      else Inr (ChannelObj
        [''opticalPathIdentifier'' \<mapsto> property options ''opticalPathIdentifier'',
         ''studyInstanceUID'' \<mapsto> property options ''studyInstanceUID'',
         ''seriesInstanceUID'' \<mapsto> property options ''seriesInstanceUID'',
         ''sopInstanceUIDs'' \<mapsto> property options ''sopInstanceUIDs'']))"
  by (simp add: Channel_def)

lemma has_elements_array:
  "elements h v = Some xs \<Longrightarrow> has_elements h v k = (length xs = k)"
  by (auto simp add: has_elements_def dest: elements_get_length)

lemma first_failing_check_unfold:
  "first_failing_check h options =
     (let color = property options ''color'';
          thresholdValues = property options ''thresholdValues'';
          limitValues = property options ''limitValues''
      in
      if loosely_null color then Some (Error ''Color is required.'')
      else case elements h color of
        None \<Rightarrow> Some (Error ''Color must be provided as an array.'')
      | Some cs \<Rightarrow>
      if length cs \<noteq> 3 then Some (Error ''An RGB color triplet must be provided.'')
      else if loosely_null thresholdValues then Some (Error ''Threshold values are required.'')
      else case elements h thresholdValues of
        None \<Rightarrow> Some (Error ''Threshold values must be provided as an array.'')
      | Some ts \<Rightarrow>
      if length ts \<noteq> 2 then Some (Error ''Two threshold values must be provided.'')
      else if loosely_null limitValues then Some (Error ''Limit values are required.'')
      else if get_length h limitValues \<noteq> Inr (Some 2)
        then Some (Error ''Two limit values must be provided.'')
      else None)"
proof -
  let ?c = "property options ''color''"
  let ?t = "property options ''thresholdValues''"
  show ?thesis
  proof (cases "elements h ?c")
    case None
    then show ?thesis
      by (simp add: first_failing_check_def validation_order_def present_def isArray_elements)
  next
    case c: (Some cs)
    show ?thesis
    proof (cases "elements h ?t")
      case None
      with c show ?thesis
        by (simp add: first_failing_check_def validation_order_def present_def
            isArray_elements has_elements_array)
    next
      case t: (Some ts)
      with c show ?thesis
        by (simp add: first_failing_check_def validation_order_def present_def
            isArray_elements has_elements_array)
          (simp add: has_elements_def)
    qed
  qed
qed

text \<open>What the constructor throws, and where it stops.\<close>

lemma thrown_BlendingInformation:
  "thrown (BlendingInformation h options) =
     (let color = property options ''color'';
          thresholdValues = property options ''thresholdValues'';
          limitValues = property options ''limitValues'';
          h1 = h @ [ArrayObj (yields h color) None];
          h2 = h1 @ [ArrayObj (yields h1 thresholdValues) None]
      in
      if loosely_null color then Some (Error ''Color is required.'')
      else case elements h color of
        None \<Rightarrow> Some (Error ''Color must be provided as an array.'')
      | Some xs \<Rightarrow>
      if length xs \<noteq> 3 then Some (Error ''An RGB color triplet must be provided.'')
      else if loosely_null thresholdValues then Some (Error ''Threshold values are required.'')
      else case elements h1 thresholdValues of
        None \<Rightarrow> Some (Error ''Threshold values must be provided as an array.'')
      | Some ys \<Rightarrow>
      if length ys \<noteq> 2 then Some (Error ''Two threshold values must be provided.'')
      else if loosely_null limitValues then Some (Error ''Limit values are required.'')
      else if get_length h2 limitValues \<noteq> Inr (Some 2) then Some (Error ''Two limit values must be provided.'')
      else case spread h2 limitValues of
        Inl e \<Rightarrow> Some e
      | Inr ls \<Rightarrow> None)"
  unfolding BlendingInformation_unfold
  by (simp add: Let_def thrown_simps split: option.splits sum.splits)

lemma thrown_first_failing_check:
  assumes "wf_options h options"
  shows "thrown (BlendingInformation h options) =
      (case first_failing_check h options of
         Some e \<Rightarrow> Some e
       | None \<Rightarrow> (case spread h (property options ''limitValues'') of
           Inl e \<Rightarrow> Some e | Inr ls \<Rightarrow> None))"
  unfolding BlendingInformation_unfold_wf [OF assms] first_failing_check_unfold
  by (simp add: Let_def thrown_simps split: option.splits sum.splits)

lemma BlendingInformation_heap: "take (length h) (fst (BlendingInformation h options)) = h"
  unfolding BlendingInformation_unfold
  by (simp add: Let_def split: option.splits sum.splits)

text \<open>A construction that returns an instance took the last path.\<close>

lemma BlendingInformation_success:
  assumes "BlendingInformation h options = (h', Inr this)"
    and "wf_options h options"
  obtains xs ys ls where
    "elements h (property options ''color'') = Some xs" "length xs = 3"
    "elements h (property options ''thresholdValues'') = Some ys" "length ys = 2"
    "\<not> loosely_null (property options ''limitValues'')"
    "get_length h (property options ''limitValues'') = Inr (Some 2)"
    "spread h (property options ''limitValues'') = Inr ls"
    "h' = h @ [ArrayObj (yields h (property options ''color'')) None,
               ArrayObj (yields h (property options ''thresholdValues'')) None,
               ArrayObj ls None]"
    "this = [''opticalPathIdentifier'' \<mapsto> property options ''opticalPathIdentifier'',
             ''color'' \<mapsto> JObject (length h),
             ''opacity'' \<mapsto> property options ''opacity'',
             ''thresholdValues'' \<mapsto> JObject (Suc (length h)),
             ''limitValues'' \<mapsto> JObject (Suc (Suc (length h))),
             ''visible'' \<mapsto> property options ''visible'']"
  using assms(1) unfolding BlendingInformation_unfold_wf [OF assms(2)] Let_def
  by (auto split: if_splits option.splits sum.splits)

text \<open>Missing and valid fields.\<close>

lemma thrown_absent:
  "loosely_null (property options ''color'') \<Longrightarrow>
     thrown (BlendingInformation h options) = Some (Error ''Color is required.'')"
  "valid_array h (property options ''color'') 3 \<Longrightarrow>
   loosely_null (property options ''thresholdValues'') \<Longrightarrow>
     thrown (BlendingInformation h options) = Some (Error ''Threshold values are required.'')"
  "valid_array h (property options ''color'') 3 \<Longrightarrow>
   valid_array h (property options ''thresholdValues'') 2 \<Longrightarrow>
   loosely_null (property options ''limitValues'') \<Longrightarrow>
     thrown (BlendingInformation h options) = Some (Error ''Limit values are required.'')"
proof -
  show "thrown (BlendingInformation h options) = Some (Error ''Color is required.'')"
    if "loosely_null (property options ''color'')"
    using that by (simp add: thrown_BlendingInformation Let_def)
  show "thrown (BlendingInformation h options) = Some (Error ''Threshold values are required.'')"
    if "valid_array h (property options ''color'') 3"
      and "loosely_null (property options ''thresholdValues'')"
    using that
    by (auto simp add: thrown_BlendingInformation valid_array_elements Let_def
        dest: elements_not_null)
  show "thrown (BlendingInformation h options) = Some (Error ''Limit values are required.'')"
    if c: "valid_array h (property options ''color'') 3"
      and t: "valid_array h (property options ''thresholdValues'') 2"
      and l: "loosely_null (property options ''limitValues'')"
  proof -
    from c obtain xs where xs: "elements h (property options ''color'') = Some xs" "length xs = 3"
      by (auto simp add: valid_array_elements)
    from t obtain ys where ys: "elements h (property options ''thresholdValues'') = Some ys"
      "length ys = 2"
      by (auto simp add: valid_array_elements)
    have "elements (h @ zs) (property options ''thresholdValues'') = Some ys" for zs
      using ys(1) by (simp add: elements_append [OF elements_wf])
    then show ?thesis
      using xs ys l elements_not_null [OF xs(1)] elements_not_null [OF ys(1)]
      by (simp add: thrown_BlendingInformation Let_def)
  qed
qed

lemma thrown_valid:
  assumes c: "valid_array h (property options ''color'') 3"
    and t: "valid_array h (property options ''thresholdValues'') 2"
    and l: "valid_array h (property options ''limitValues'') 2"
  shows "thrown (BlendingInformation h options) = None"
proof -
  from c obtain xs where xs: "elements h (property options ''color'') = Some xs" "length xs = 3"
    by (auto simp add: valid_array_elements)
  from t obtain ys where ys: "elements h (property options ''thresholdValues'') = Some ys"
    "length ys = 2"
    by (auto simp add: valid_array_elements)
  from l obtain ls where ls: "elements h (property options ''limitValues'') = Some ls"
    "length ls = 2"
    by (auto simp add: valid_array_elements)
  have t': "elements (h @ zs) (property options ''thresholdValues'') = Some ys" for zs
    using ys(1) by (simp add: elements_append [OF elements_wf])
  have l': "elements (h @ zs) (property options ''limitValues'') = Some ls" for zs
    using ls(1) by (simp add: elements_append [OF elements_wf])
  note elements_get_length [OF l'] elements_spread [OF l']
  then show ?thesis
    using xs ys ls t' elements_not_null [OF xs(1)] elements_not_null [OF ys(1)]
      elements_not_null [OF ls(1)]
    by (simp add: thrown_BlendingInformation Let_def)
qed

text \<open>
  The shape checks that do their work: a colour or threshold values that are supplied
  and are not an array, and arrays with the wrong number of elements.
\<close>

lemma not_a_sequence:
  "\<not> loosely_null (property options ''color'') \<Longrightarrow>
   \<not> isArray h (property options ''color'') \<Longrightarrow>
     thrown (BlendingInformation h options) =
       Some (Error ''Color must be provided as an array.'')"
  "valid_array h (property options ''color'') 3 \<Longrightarrow>
   \<not> loosely_null (property options ''thresholdValues'') \<Longrightarrow>
   wf_value h (property options ''thresholdValues'') \<Longrightarrow>
   \<not> isArray h (property options ''thresholdValues'') \<Longrightarrow>
     thrown (BlendingInformation h options) =
       Some (Error ''Threshold values must be provided as an array.'')"
proof -
  show "thrown (BlendingInformation h options) =
      Some (Error ''Color must be provided as an array.'')"
    if "\<not> loosely_null (property options ''color'')"
      and "\<not> isArray h (property options ''color'')"
    using that by (simp add: thrown_BlendingInformation isArray_elements Let_def)
  show "thrown (BlendingInformation h options) =
      Some (Error ''Threshold values must be provided as an array.'')"
    if c: "valid_array h (property options ''color'') 3"
      and t: "\<not> loosely_null (property options ''thresholdValues'')"
        "wf_value h (property options ''thresholdValues'')"
        "\<not> isArray h (property options ''thresholdValues'')"
  proof -
    from c obtain xs where xs: "elements h (property options ''color'') = Some xs" "length xs = 3"
      by (auto simp add: valid_array_elements)
    have "elements (h @ zs) (property options ''thresholdValues'') = None" for zs
      using t(2,3) by (simp add: elements_append isArray_elements)
    then show ?thesis
      using xs t(1) elements_not_null [OF xs(1)]
      by (simp add: thrown_BlendingInformation Let_def)
  qed
qed

lemma wrong_element_count:
  "elements h (property options ''color'') = Some cs \<Longrightarrow> length cs \<noteq> 3 \<Longrightarrow>
     thrown (BlendingInformation h options) =
       Some (Error ''An RGB color triplet must be provided.'')"
  "valid_array h (property options ''color'') 3 \<Longrightarrow>
   elements h (property options ''thresholdValues'') = Some ts \<Longrightarrow> length ts \<noteq> 2 \<Longrightarrow>
     thrown (BlendingInformation h options) =
       Some (Error ''Two threshold values must be provided.'')"
  "valid_array h (property options ''color'') 3 \<Longrightarrow>
   valid_array h (property options ''thresholdValues'') 2 \<Longrightarrow>
   elements h (property options ''limitValues'') = Some ls \<Longrightarrow> length ls \<noteq> 2 \<Longrightarrow>
     thrown (BlendingInformation h options) =
       Some (Error ''Two limit values must be provided.'')"
proof -
  show "thrown (BlendingInformation h options) =
      Some (Error ''An RGB color triplet must be provided.'')"
    if "elements h (property options ''color'') = Some cs" and "length cs \<noteq> 3"
    using that elements_not_null [OF that(1)]
    by (simp add: thrown_BlendingInformation Let_def)
  show "thrown (BlendingInformation h options) =
      Some (Error ''Two threshold values must be provided.'')"
    if c: "valid_array h (property options ''color'') 3"
      and t: "elements h (property options ''thresholdValues'') = Some ts" "length ts \<noteq> 2"
  proof -
    from c obtain xs where xs: "elements h (property options ''color'') = Some xs" "length xs = 3"
      by (auto simp add: valid_array_elements)
    have "elements (h @ zs) (property options ''thresholdValues'') = Some ts" for zs
      using t(1) by (simp add: elements_append [OF elements_wf])
    then show ?thesis
      using xs t elements_not_null [OF xs(1)] elements_not_null [OF t(1)]
      by (simp add: thrown_BlendingInformation Let_def)
  qed
  show "thrown (BlendingInformation h options) =
      Some (Error ''Two limit values must be provided.'')"
    if c: "valid_array h (property options ''color'') 3"
      and t: "valid_array h (property options ''thresholdValues'') 2"
      and l: "elements h (property options ''limitValues'') = Some ls" "length ls \<noteq> 2"
  proof -
    from c obtain xs where xs: "elements h (property options ''color'') = Some xs" "length xs = 3"
      by (auto simp add: valid_array_elements)
    from t obtain ys where ys: "elements h (property options ''thresholdValues'') = Some ys"
      "length ys = 2"
      by (auto simp add: valid_array_elements)
    have t': "elements (h @ zs) (property options ''thresholdValues'') = Some ys" for zs
      using ys(1) by (simp add: elements_append [OF elements_wf])
    have l': "elements (h @ zs) (property options ''limitValues'') = Some ls" for zs
      using l(1) by (simp add: elements_append [OF elements_wf])
    note elements_get_length [OF l']
    then show ?thesis
      using xs ys l t' elements_not_null [OF xs(1)] elements_not_null [OF ys(1)]
        elements_not_null [OF l(1)]
      by (simp add: thrown_BlendingInformation Let_def)
  qed
qed

text \<open>
  The copies are containers of their own. After a successful construction, for options
  that refer to objects of the heap, the three stored fields are arrays that hold what
  iterating the three inputs yielded; they are not objects of the caller's heap and
  differ from each other; whatever the caller then does to any object of its own
  leaves their elements as they are; and the construction has changed no object of the
  caller.
\<close>

lemma stored_arrays_fresh:
  assumes "BlendingInformation h options = (h', Inr this)"
    and "wf_options h options"
  shows "\<exists>cs ts ls.
     spread h (property options ''color'') = Inr cs \<and>
     spread h (property options ''thresholdValues'') = Inr ts \<and>
     spread h (property options ''limitValues'') = Inr ls \<and>
     elements h' (property this ''color'') = Some cs \<and>
     elements h' (property this ''thresholdValues'') = Some ts \<and>
     elements h' (property this ''limitValues'') = Some ls \<and>
     \<not> wf_value h (property this ''color'') \<and>
     \<not> wf_value h (property this ''thresholdValues'') \<and>
     \<not> wf_value h (property this ''limitValues'') \<and>
     distinct [property this ''color'', property this ''thresholdValues'',
       property this ''limitValues''] \<and>
     (\<forall>a cell. a < length h \<longrightarrow>
        elements (mutate h' a cell) (property this ''color'') = Some cs \<and>
        elements (mutate h' a cell) (property this ''thresholdValues'') = Some ts \<and>
        elements (mutate h' a cell) (property this ''limitValues'') = Some ls) \<and>
     (\<forall>a. a < length h \<longrightarrow> lookup h' a = lookup h a)"
proof -
  let ?cs = "yields h (property options ''color'')"
  let ?ts = "yields h (property options ''thresholdValues'')"
  from assms obtain xs ys ls where
    c: "elements h (property options ''color'') = Some xs"
    and t: "elements h (property options ''thresholdValues'') = Some ys"
    and l: "spread h (property options ''limitValues'') = Inr ls"
    and h': "h' = h @ [ArrayObj ?cs None, ArrayObj ?ts None, ArrayObj ls None]"
    and inst: "this = [''opticalPathIdentifier'' \<mapsto> property options ''opticalPathIdentifier'',
             ''color'' \<mapsto> JObject (length h),
             ''opacity'' \<mapsto> property options ''opacity'',
             ''thresholdValues'' \<mapsto> JObject (Suc (length h)),
             ''limitValues'' \<mapsto> JObject (Suc (Suc (length h))),
             ''visible'' \<mapsto> property options ''visible'']"
    by (rule BlendingInformation_success)
  have stored: "property this ''color'' = JObject (length h)"
    "property this ''thresholdValues'' = JObject (Suc (length h))"
    "property this ''limitValues'' = JObject (Suc (Suc (length h)))"
    by (simp_all add: inst property_def)
  have fresh: "\<not> wf_value h (JObject (length h))" "\<not> wf_value h (JObject (Suc (length h)))"
    "\<not> wf_value h (JObject (Suc (Suc (length h))))"
    by (simp_all add: wf_value_def)
  have mutated: "elements (mutate h' a cell) (JObject (length h)) = Some ?cs \<and>
      elements (mutate h' a cell) (JObject (Suc (length h))) = Some ?ts \<and>
      elements (mutate h' a cell) (JObject (Suc (Suc (length h)))) = Some ls"
    if "a < length h" for a cell
    using that by (simp add: elements_mutate_other h' elements_fresh)
  have kept: "lookup h' a = lookup h a" if "a < length h" for a
    using that by (simp add: h' lookup_append)
  show ?thesis
    using elements_spread [OF c] elements_spread [OF t] l fresh mutated kept
    by (simp add: stored h' elements_fresh)
qed

text \<open>
  A copy is made by iterating. The colour of \<open>own_iterator_heap\<close> is an array of three
  elements, so it passes the checks, and the instance stores what its iterator yields.
\<close>

lemma own_iterator_copied:
  "\<exists>h this. BlendingInformation own_iterator_heap scenario3 = (h, Inr this) \<and>
     elements own_iterator_heap (property scenario3 ''color'') =
       Some [JNumber 1, JNumber 2, JNumber 3] \<and>
     elements h (property this ''color'') = Some [JNumber 7]"
  by (simp add: BlendingInformation_def property_def loosely_null_def isArray_def lookup_def
      get_length_def spread_def alloc_def scenario3_def own_iterator_heap_def elements_def)

section \<open>The claims about the two constructors\<close>

text \<open>
  C1: a colour, threshold values or limit values that are supplied but are not a
  sequence, or have the wrong number of elements, make the constructor fail with a
  \<open>ShapeError\<close>; in particular, limit values that are not a sequence do so when the
  threshold values are a valid array of two elements.

  The constructor tests \<^verbatim>\<open>Array.isArray(thresholdValues)\<close> where it means the limit
  values. On scenario 3 with the string \<^verbatim>\<open>"ab"\<close> as limit values, a value that is supplied
  and is not an array, it throws nothing: the string has length 2, and the instance
  holds the array \<^verbatim>\<open>["a", "b"]\<close>.
\<close>

theorem limitValues_string_accepted:
  "property limit_string ''limitValues'' = JString (ascii ''ab'') \<and>
   \<not> isArray scenario3_heap (property limit_string ''limitValues'') \<and>
   valid_array scenario3_heap (property limit_string ''thresholdValues'') 2 \<and>
   thrown (BlendingInformation scenario3_heap limit_string) = None \<and>
   (\<exists>h this. BlendingInformation scenario3_heap limit_string = (h, Inr this) \<and>
      elements h (property this ''limitValues'') =
        Some [JString (ascii ''a''), JString (ascii ''b'')])"
  by (simp add: eval_defs limit_string_def thrown_def valid_array_def elements_def)

text \<open>
  C2: when several fields are invalid, the first failing check in the fixed order of
  the specification determines the error raised, and opacity and visibility take part
  in no check. For options that refer to objects of the heap, the constructor throws
  the error of \<open>first_failing_check\<close> whenever a check fails; when none fails it returns an
  instance, unless the limit values cannot be iterated, which is a \<^verbatim>\<open>TypeError\<close> of the
  language and not one of the checks. Replacing or removing \<^verbatim>\<open>opacity\<close> and \<^verbatim>\<open>visible\<close>
  changes neither the first failing check nor the error thrown.
\<close>

theorem first_failing_check_decides:
  assumes "wf_options h options"
  shows "(case first_failing_check h options of
            Some e \<Rightarrow> thrown (BlendingInformation h options) = Some e
          | None \<Rightarrow> thrown (BlendingInformation h options) \<in> {None, Some TypeError}) \<and>
         first_failing_check h (options(''opacity'' := x, ''visible'' := y)) =
           first_failing_check h options \<and>
         thrown (BlendingInformation h (options(''opacity'' := x, ''visible'' := y))) =
           thrown (BlendingInformation h options)"
proof -
  let ?options' = "options(''opacity'' := x, ''visible'' := y)"
  have same: "property ?options' ''color'' = property options ''color''"
    "property ?options' ''thresholdValues'' = property options ''thresholdValues''"
    "property ?options' ''limitValues'' = property options ''limitValues''"
    by (simp_all add: property_def)
  then have wf': "wf_options h ?options'"
    using assms by (simp add: wf_options_def)
  note thrown_eq = thrown_first_failing_check
  have checks: "first_failing_check h ?options' = first_failing_check h options"
    unfolding first_failing_check_unfold same ..
  have "case first_failing_check h options of
          Some e \<Rightarrow> thrown (BlendingInformation h options) = Some e
        | None \<Rightarrow> thrown (BlendingInformation h options) \<in> {None, Some TypeError}"
    unfolding thrown_eq [OF assms]
    by (auto split: option.splits sum.splits dest: spread_error)
  moreover have "thrown (BlendingInformation h ?options') =
      thrown (BlendingInformation h options)"
    unfolding thrown_eq [OF assms] thrown_eq [OF wf'] checks same ..
  ultimately show ?thesis
    using checks by simp
qed

text \<open>
  Three checks fail on \<open>multiple_invalid\<close>: the colour is not an array, the threshold
  values are missing and the limit values do not have two elements. The error is the
  one of the colour.
\<close>

theorem first_failing_check_decides_witness:
  "wf_options scenario3_heap multiple_invalid \<and>
   \<not> isArray scenario3_heap (property multiple_invalid ''color'') \<and>
   \<not> present (property multiple_invalid ''thresholdValues'') \<and>
   \<not> has_elements scenario3_heap (property multiple_invalid ''limitValues'') 2 \<and>
   first_failing_check scenario3_heap multiple_invalid =
     Some (Error ''Color must be provided as an array.'') \<and>
   thrown (BlendingInformation scenario3_heap multiple_invalid) =
     Some (Error ''Color must be provided as an array.'')"
proof -
  have wf: "wf_options scenario3_heap multiple_invalid"
    by (simp add: wf_options_def wf_value_def multiple_invalid_def property_def
        scenario3_heap_def)
  have first: "first_failing_check scenario3_heap multiple_invalid =
      Some (Error ''Color must be provided as an array.'')"
    by (simp add: first_failing_check_def validation_order_def present_def has_elements_def
        multiple_invalid_def property_def loosely_null_def isArray_def)
  have others: "\<not> isArray scenario3_heap (property multiple_invalid ''color'')"
    "\<not> present (property multiple_invalid ''thresholdValues'')"
    "\<not> has_elements scenario3_heap (property multiple_invalid ''limitValues'') 2"
    by (simp_all add: present_def has_elements_def multiple_invalid_def property_def
        loosely_null_def isArray_def get_length_def lookup_def scenario3_heap_def)
  show ?thesis
    using first_failing_check_decides [OF wf, of None None] wf first others
    by simp
qed

text \<open>
  C3: the constructor of \<open>Channel\<close> fails with a \<open>MissingFieldError\<close> if and only if at
  least one of \<^verbatim>\<open>opticalPathIdentifier\<close>, \<^verbatim>\<open>studyInstanceUID\<close>, \<^verbatim>\<open>seriesInstanceUID\<close> and
  \<^verbatim>\<open>sopInstanceUIDs\<close> is absent, where absent means that the option reads as \<^verbatim>\<open>undefined\<close>.
  It produces an instance exactly when none is absent, so a failure produces none. An
  empty string and an empty sequence (any object at all) are accepted.
\<close>

theorem Channel_MissingFieldError_iff:
  "((\<exists>e. Channel options = Inl e \<and> MissingFieldError e) = absent_channel_field options) \<and>
   ((\<exists>this. Channel options = Inr this) = (\<not> absent_channel_field options)) \<and>
   (\<exists>this. Channel [''opticalPathIdentifier'' \<mapsto> JString [],
                     ''studyInstanceUID'' \<mapsto> JString [],
                     ''seriesInstanceUID'' \<mapsto> JString [],
                     ''sopInstanceUIDs'' \<mapsto> JObject a] = Inr this)"
  by (simp add: Channel_unfold absent_channel_field_def MissingFieldError_def property_def)

text \<open>Scenario 2 fails with a \<open>MissingFieldError\<close>, scenario 1 gives an instance.\<close>

theorem Channel_MissingFieldError_iff_witness:
  "(\<exists>e. Channel scenario2 = Inl e \<and> MissingFieldError e) \<and>
   (\<exists>this. Channel scenario1 = Inr this)"
proof -
  have "absent_channel_field scenario2" "\<not> absent_channel_field scenario1"
    by (simp_all add: absent_channel_field_def scenario1_def scenario2_def property_def)
  then show ?thesis
    using Channel_MissingFieldError_iff [of scenario2 0]
      Channel_MissingFieldError_iff [of scenario1 0]
    by blast
qed

text \<open>
  C4: when all four fields are present, construction succeeds and each of the four
  getters returns exactly the value supplied: the same value, of the same type, and for
  \<^verbatim>\<open>sopInstanceUIDs\<close> the same array, hence the same elements in the same order whatever
  the heap holds.
\<close>

theorem Channel_accessors:
  assumes "property options ''opticalPathIdentifier'' \<noteq> JUndefined"
    and "property options ''studyInstanceUID'' \<noteq> JUndefined"
    and "property options ''seriesInstanceUID'' \<noteq> JUndefined"
    and "property options ''sopInstanceUIDs'' \<noteq> JUndefined"
  shows "\<exists>this. Channel options = Inr this \<and>
     opticalPathIdentifier this = property options ''opticalPathIdentifier'' \<and>
     studyInstanceUID this = property options ''studyInstanceUID'' \<and>
     seriesInstanceUID this = property options ''seriesInstanceUID'' \<and>
     sopInstanceUIDs this = property options ''sopInstanceUIDs'' \<and>
     (\<forall>h. elements h (sopInstanceUIDs this) = elements h (property options ''sopInstanceUIDs''))"
  using assms
  by (simp add: Channel_unfold opticalPathIdentifier_def studyInstanceUID_def
      seriesInstanceUID_def sopInstanceUIDs_def property_def)

text \<open>Scenario 1 of the specification.\<close>

theorem Channel_accessors_witness:
  "\<exists>this. Channel scenario1 = Inr this \<and>
     opticalPathIdentifier this = JString (ascii ''Cy5'') \<and>
     studyInstanceUID this = JString (ascii ''1.2.3'') \<and>
     seriesInstanceUID this = JString (ascii ''1.2.3.4'') \<and>
     sopInstanceUIDs this = JObject 0 \<and>
     elements scenario1_heap (sopInstanceUIDs this) = Some [JString (ascii ''1.2.3.4.5'')]"
proof -
  have present: "property scenario1 ''opticalPathIdentifier'' \<noteq> JUndefined"
    "property scenario1 ''studyInstanceUID'' \<noteq> JUndefined"
    "property scenario1 ''seriesInstanceUID'' \<noteq> JUndefined"
    "property scenario1 ''sopInstanceUIDs'' \<noteq> JUndefined"
    by (simp_all add: scenario1_def property_def)
  have "elements scenario1_heap (property scenario1 ''sopInstanceUIDs'') =
      Some [JString (ascii ''1.2.3.4.5'')]"
    by (simp add: scenario1_def scenario1_heap_def property_def elements_def lookup_def)
  moreover have "property scenario1 ''opticalPathIdentifier'' = JString (ascii ''Cy5'')"
    "property scenario1 ''studyInstanceUID'' = JString (ascii ''1.2.3'')"
    "property scenario1 ''seriesInstanceUID'' = JString (ascii ''1.2.3.4'')"
    "property scenario1 ''sopInstanceUIDs'' = JObject 0"
    by (simp_all add: scenario1_def property_def)
  ultimately show ?thesis
    using Channel_accessors [OF present] by auto
qed

text \<open>
  C5: omitting any one of \<^verbatim>\<open>color\<close>, \<^verbatim>\<open>thresholdValues\<close> and \<^verbatim>\<open>limitValues\<close> makes the
  constructor fail with a \<open>MissingFieldError\<close>. The checks run in order and the first
  failure is the one thrown, so an omitted field is reported when the fields checked
  before it are valid: nothing for the colour, the colour for the threshold values, the
  colour and the threshold values for the limit values.
\<close>

theorem BlendingInformation_missing_field:
  "(property options ''color'' = JUndefined \<longrightarrow>
      thrown (BlendingInformation h options) = Some (Error ''Color is required.'')) \<and>
   (valid_array h (property options ''color'') 3 \<and>
    property options ''thresholdValues'' = JUndefined \<longrightarrow>
      thrown (BlendingInformation h options) = Some (Error ''Threshold values are required.'')) \<and>
   (valid_array h (property options ''color'') 3 \<and>
    valid_array h (property options ''thresholdValues'') 2 \<and>
    property options ''limitValues'' = JUndefined \<longrightarrow>
      thrown (BlendingInformation h options) = Some (Error ''Limit values are required.'')) \<and>
   MissingFieldError (Error ''Color is required.'') \<and>
   MissingFieldError (Error ''Threshold values are required.'') \<and>
   MissingFieldError (Error ''Limit values are required.'')"
  using thrown_absent [where h = h and options = options]
  by (simp add: MissingFieldError_def loosely_null_simps)

text \<open>Scenario 3 with each of the three fields removed in turn.\<close>

theorem BlendingInformation_missing_field_witness:
  "(\<exists>e. thrown (BlendingInformation scenario3_heap (scenario3(''color'' := None))) = Some e \<and>
      MissingFieldError e) \<and>
   (\<exists>e. thrown (BlendingInformation scenario3_heap (scenario3(''thresholdValues'' := None))) =
      Some e \<and> MissingFieldError e) \<and>
   (\<exists>e. thrown (BlendingInformation scenario3_heap (scenario3(''limitValues'' := None))) = Some e \<and>
      MissingFieldError e)"
proof -
  have "property (scenario3(''color'' := None)) ''color'' = JUndefined"
    by (simp add: property_def)
  moreover have "valid_array scenario3_heap
      (property (scenario3(''thresholdValues'' := None)) ''color'') 3 \<and>
    property (scenario3(''thresholdValues'' := None)) ''thresholdValues'' = JUndefined"
    by (simp add: scenario3_eval)
  moreover have "valid_array scenario3_heap
      (property (scenario3(''limitValues'' := None)) ''color'') 3 \<and>
    valid_array scenario3_heap (property (scenario3(''limitValues'' := None)) ''thresholdValues'') 2 \<and>
    property (scenario3(''limitValues'' := None)) ''limitValues'' = JUndefined"
    by (simp add: scenario3_eval)
  ultimately show ?thesis
    using BlendingInformation_missing_field [of "scenario3(''color'' := None)" scenario3_heap]
      BlendingInformation_missing_field [of "scenario3(''thresholdValues'' := None)" scenario3_heap]
      BlendingInformation_missing_field [of "scenario3(''limitValues'' := None)" scenario3_heap]
    by blast
qed

text \<open>
  C6: with the other fields valid, a colour of length 2 or 4 and threshold or limit
  values of length 1 or 3 cause a \<open>ShapeError\<close> while the lengths 3, 2 and 2 succeed, and
  after a successful construction the colour has three elements and the threshold and
  limit values have two.

  The last part fails on the constructor: it tests the threshold values where it means
  the limit values, so the limit values need not be an array, and the length the
  constructor compares with 2 is then not the number of elements it stores. On scenario 3 with the string of the two surrogates as
  limit values, construction succeeds and the instance's \<^verbatim>\<open>limitValues\<close> is an array of
  one element.
\<close>

theorem limitValues_length_one:
  "thrown (BlendingInformation scenario3_heap limit_surrogates) = None \<and>
   (\<exists>h this. BlendingInformation scenario3_heap limit_surrogates = (h, Inr this) \<and>
      isArray h (property this ''limitValues'') \<and>
      get_length h (property this ''limitValues'') = Inr (Some 1))"
  by (simp add: eval_defs limit_surrogates_def thrown_def)

text \<open>
  C7: after a successful construction the stored \<^verbatim>\<open>color\<close>, \<^verbatim>\<open>thresholdValues\<close> and
  \<^verbatim>\<open>limitValues\<close> are independent copies of the supplied arrays: each deep-equals the
  corresponding input at construction time and is a distinct container, so that
  mutating the caller's array afterwards does not change the instance's field.

  The constructor tests the threshold values where it means the limit values, so it
  also succeeds on limit values that are no array, and then what it stores is not a
  copy of what was supplied. On scenario 3 with the string \<^verbatim>\<open>"ab"\<close> as limit values the
  construction succeeds; the input is a string, with no elements to compare, and the
  stored field is the array \<^verbatim>\<open>["a", "b"]\<close>.
\<close>

theorem limitValues_not_a_copy:
  "\<exists>h this. BlendingInformation scenario3_heap limit_string = (h, Inr this) \<and>
     property limit_string ''limitValues'' = JString (ascii ''ab'') \<and>
     elements h (property limit_string ''limitValues'') = None \<and>
     isArray h (property this ''limitValues'') \<and>
     elements h (property this ''limitValues'') =
       Some [JString (ascii ''a''), JString (ascii ''b'')]"
  by (simp add: eval_defs limit_string_def elements_def)

text \<open>
  C8: no value of \<^verbatim>\<open>opticalPathIdentifier\<close>, \<^verbatim>\<open>opacity\<close> and \<^verbatim>\<open>visible\<close>, absent or of any
  type, makes the construction fail, and each is stored as given. Replacing or removing
  the three options changes nothing of what the constructor throws; an instance holds
  for each of them the value the option reads as (\<^verbatim>\<open>undefined\<close> when it is absent); and
  with three valid arrays the construction succeeds whatever the three are.
\<close>

theorem unchecked_fields:
  "thrown (BlendingInformation h
      (options(''opticalPathIdentifier'' := x, ''opacity'' := y, ''visible'' := z))) =
     thrown (BlendingInformation h options) \<and>
   (\<forall>h' this. BlendingInformation h options = (h', Inr this) \<longrightarrow>
      this ''opticalPathIdentifier'' = Some (property options ''opticalPathIdentifier'') \<and>
      this ''opacity'' = Some (property options ''opacity'') \<and>
      this ''visible'' = Some (property options ''visible'')) \<and>
   (valid_array h (property options ''color'') 3 \<and>
    valid_array h (property options ''thresholdValues'') 2 \<and>
    valid_array h (property options ''limitValues'') 2 \<longrightarrow>
      thrown (BlendingInformation h options) = None)"
proof -
  let ?options' = "options(''opticalPathIdentifier'' := x, ''opacity'' := y, ''visible'' := z)"
  have same: "property ?options' ''color'' = property options ''color''"
    "property ?options' ''thresholdValues'' = property options ''thresholdValues''"
    "property ?options' ''limitValues'' = property options ''limitValues''"
    by (simp_all add: property_def)
  have "thrown (BlendingInformation h ?options') = thrown (BlendingInformation h options)"
    unfolding thrown_BlendingInformation same ..
  moreover have "this ''opticalPathIdentifier'' = Some (property options ''opticalPathIdentifier'') \<and>
      this ''opacity'' = Some (property options ''opacity'') \<and>
      this ''visible'' = Some (property options ''visible'')"
    if "BlendingInformation h options = (h', Inr this)" for h' this
    using that unfolding BlendingInformation_unfold Let_def
    by (auto split: if_splits option.splits sum.splits)
  ultimately show ?thesis
    using thrown_valid [of h options] by blast
qed

text \<open>
  No optical path identifier, a string as opacity, a number as visibility: the
  construction succeeds and stores \<^verbatim>\<open>undefined\<close>, the string and the number.
\<close>

theorem unchecked_fields_witness:
  "thrown (BlendingInformation scenario3_heap wrong_typed) = None \<and>
   (\<exists>h' this. BlendingInformation scenario3_heap wrong_typed = (h', Inr this) \<and>
      this ''opticalPathIdentifier'' = Some JUndefined \<and>
      this ''opacity'' = Some (JString (ascii ''opaque'')) \<and>
      this ''visible'' = Some (JNumber 42))"
proof -
  have valid: "valid_array scenario3_heap (property wrong_typed ''color'') 3 \<and>
    valid_array scenario3_heap (property wrong_typed ''thresholdValues'') 2 \<and>
    valid_array scenario3_heap (property wrong_typed ''limitValues'') 2"
    by (simp add: scenario3_eval wrong_typed_def)
  have given: "property wrong_typed ''opticalPathIdentifier'' = JUndefined"
    "property wrong_typed ''opacity'' = JString (ascii ''opaque'')"
    "property wrong_typed ''visible'' = JNumber 42"
    by (simp_all add: wrong_typed_def property_def)
  have none: "thrown (BlendingInformation scenario3_heap wrong_typed) = None"
    using unchecked_fields [of scenario3_heap wrong_typed None None None] valid by blast
  then obtain h' this where ok: "BlendingInformation scenario3_heap wrong_typed = (h', Inr this)"
    by (cases "BlendingInformation scenario3_heap wrong_typed")
      (auto simp add: thrown_def split: sum.splits)
  then show ?thesis
    using unchecked_fields [of scenario3_heap wrong_typed None None None] none given
    by auto
qed

text \<open>
  C9: either constructor succeeds, producing a fully valid instance, or fails
  atomically: when a validation error is raised, no instance is observable to the
  caller.

  A construction that throws returns no instance. A construction that succeeds need
  not produce a valid one: the constructor tests the threshold values where it means
  the limit values. On scenario 3 with the string of the two surrogates as limit
  values every check passes and an instance is returned, and its \<^verbatim>\<open>limitValues\<close> is not an
  array of two elements: it holds the one code point of the string.
\<close>

theorem invalid_instance_constructed:
  "\<exists>h this. BlendingInformation scenario3_heap limit_surrogates = (h, Inr this) \<and>
     first_failing_check scenario3_heap limit_surrogates = None \<and>
     \<not> valid_array h (property this ''limitValues'') 2 \<and>
     elements h (property this ''limitValues'') = Some [JString [0xD83D, 0xDE00]]"
  by (simp add: eval_defs limit_surrogates_def elements_def valid_array_def
      first_failing_check_def validation_order_def present_def has_elements_def)

text \<open>
  C10: the two constructors treat \<^verbatim>\<open>null\<close> differently. \<open>BlendingInformation\<close> throws a
  \<open>MissingFieldError\<close> for a \<^verbatim>\<open>null\<close> colour, threshold values or limit values (as for an
  omitted one, when the fields checked before it are valid), since it tests
  \<^verbatim>\<open>== null\<close>. \<open>Channel\<close> tests \<^verbatim>\<open>=== undefined\<close>: whichever of its four inputs is \<^verbatim>\<open>null\<close>,
  the others being present, it returns an instance whose getter gives \<^verbatim>\<open>null\<close>.
\<close>

theorem null_handling:
  "(property options ''color'' = JNull \<longrightarrow>
      thrown (BlendingInformation h options) = Some (Error ''Color is required.'')) \<and>
   (valid_array h (property options ''color'') 3 \<and>
    property options ''thresholdValues'' = JNull \<longrightarrow>
      thrown (BlendingInformation h options) = Some (Error ''Threshold values are required.'')) \<and>
   (valid_array h (property options ''color'') 3 \<and>
    valid_array h (property options ''thresholdValues'') 2 \<and>
    property options ''limitValues'' = JNull \<longrightarrow>
      thrown (BlendingInformation h options) = Some (Error ''Limit values are required.'')) \<and>
   MissingFieldError (Error ''Color is required.'') \<and>
   MissingFieldError (Error ''Threshold values are required.'') \<and>
   MissingFieldError (Error ''Limit values are required.'') \<and>
   (\<not> absent_channel_field channel_options \<longrightarrow>
      (\<exists>this. Channel (channel_options(''opticalPathIdentifier'' \<mapsto> JNull)) = Inr this \<and>
         opticalPathIdentifier this = JNull) \<and>
      (\<exists>this. Channel (channel_options(''studyInstanceUID'' \<mapsto> JNull)) = Inr this \<and>
         studyInstanceUID this = JNull) \<and>
      (\<exists>this. Channel (channel_options(''seriesInstanceUID'' \<mapsto> JNull)) = Inr this \<and>
         seriesInstanceUID this = JNull) \<and>
      (\<exists>this. Channel (channel_options(''sopInstanceUIDs'' \<mapsto> JNull)) = Inr this \<and>
         sopInstanceUIDs this = JNull))"
proof -
  have channel: "(\<exists>this. Channel (channel_options(''opticalPathIdentifier'' \<mapsto> JNull)) = Inr this \<and>
         opticalPathIdentifier this = JNull) \<and>
      (\<exists>this. Channel (channel_options(''studyInstanceUID'' \<mapsto> JNull)) = Inr this \<and>
         studyInstanceUID this = JNull) \<and>
      (\<exists>this. Channel (channel_options(''seriesInstanceUID'' \<mapsto> JNull)) = Inr this \<and>
         seriesInstanceUID this = JNull) \<and>
      (\<exists>this. Channel (channel_options(''sopInstanceUIDs'' \<mapsto> JNull)) = Inr this \<and>
         sopInstanceUIDs this = JNull)"
    if "\<not> absent_channel_field channel_options"
    using that
    by (simp add: absent_channel_field_def Channel_unfold property_def
        opticalPathIdentifier_def studyInstanceUID_def seriesInstanceUID_def sopInstanceUIDs_def)
  show ?thesis
    using thrown_absent [where h = h and options = options] channel
    by (simp add: MissingFieldError_def loosely_null_simps)
qed

text \<open>Scenario 3 and scenario 1 with \<^verbatim>\<open>null\<close> in one field.\<close>

theorem null_handling_witness:
  "thrown (BlendingInformation scenario3_heap (scenario3(''color'' \<mapsto> JNull))) =
     Some (Error ''Color is required.'') \<and>
   thrown (BlendingInformation scenario3_heap (scenario3(''thresholdValues'' \<mapsto> JNull))) =
     Some (Error ''Threshold values are required.'') \<and>
   thrown (BlendingInformation scenario3_heap (scenario3(''limitValues'' \<mapsto> JNull))) =
     Some (Error ''Limit values are required.'') \<and>
   (\<exists>this. Channel (scenario1(''sopInstanceUIDs'' \<mapsto> JNull)) = Inr this \<and>
      sopInstanceUIDs this = JNull) \<and>
   (\<exists>this. Channel (scenario1(''opticalPathIdentifier'' \<mapsto> JNull)) = Inr this \<and>
      opticalPathIdentifier this = JNull)"
proof -
  have "property (scenario3(''color'' \<mapsto> JNull)) ''color'' = JNull"
    by (simp add: property_def)
  moreover have "valid_array scenario3_heap
      (property (scenario3(''thresholdValues'' \<mapsto> JNull)) ''color'') 3 \<and>
    property (scenario3(''thresholdValues'' \<mapsto> JNull)) ''thresholdValues'' = JNull"
    by (simp add: scenario3_eval)
  moreover have "valid_array scenario3_heap
      (property (scenario3(''limitValues'' \<mapsto> JNull)) ''color'') 3 \<and>
    valid_array scenario3_heap (property (scenario3(''limitValues'' \<mapsto> JNull)) ''thresholdValues'') 2 \<and>
    property (scenario3(''limitValues'' \<mapsto> JNull)) ''limitValues'' = JNull"
    by (simp add: scenario3_eval)
  moreover have "\<not> absent_channel_field scenario1"
    by (simp add: absent_channel_field_def scenario1_def property_def)
  ultimately show ?thesis
    using null_handling [of "scenario3(''color'' \<mapsto> JNull)" scenario3_heap scenario1]
      null_handling [of "scenario3(''thresholdValues'' \<mapsto> JNull)" scenario3_heap scenario1]
      null_handling [of "scenario3(''limitValues'' \<mapsto> JNull)" scenario3_heap scenario1]
    by blast
qed

end
